theory Spec2Isabelle
  imports Complex_Main "HOL-Library.Word"
begin

section \<open>The faucet relay: lock store, captcha verifier and the /claim handler\<close>

text \<open>
  A shallow embedding of the faucet server with the filesystem lock store (the file that
  defines \<open>verifyHCaptcha\<close>, \<open>getIpCooldown\<close>, \<open>setIpPending\<close> and the
  \<open>POST /claim\<close> handler). Asynchronous functions become functions that take the
  world and return their result with the new world; each \<open>throw\<close> is a value of a sum
  type; the services the server talks to (clock, captcha endpoint, chain RPC) are fields
  of an environment record, so every theorem holds for whatever they answer.
\<close>

subsection \<open>JavaScript values\<close>

text \<open>
  The result of \<open>JSON.parse\<close>. Numbers are the integers: every number the server
  writes into a lock file is a millisecond timestamp.
\<close>

datatype json =
    JNull
  | JBool bool
  | JNum int
  | JStr string
  | JArr "json list"
  | JObj "(string \<times> json) list"

text \<open>
  Property access \<open>v.k\<close> on a parsed value, for a key that no prototype defines
  (\<open>expiresAt\<close>, \<open>success\<close>): \<open>None\<close> is \<open>undefined\<close>. Only an object has such a
  property. On \<open>null\<close> a plain access throws and \<open>data?.k\<close> gives \<open>undefined\<close>; the
  callers make that difference.
\<close>

fun js_member :: "json \<Rightarrow> string \<Rightarrow> json option" where
  "js_member (JObj kvs) k = map_of kvs k"
| "js_member _ k = None"

text \<open>\<open>typeof v === 'number'\<close>, \<open>v\<close> possibly \<open>undefined\<close>.\<close>

fun is_number :: "json option \<Rightarrow> bool" where
  "is_number (Some (JNum n)) = True"
| "is_number _ = False"

text \<open>Truthiness (\<open>!!v\<close>) of a parsed value, \<open>None\<close> being \<open>undefined\<close>.\<close>

fun truthy :: "json option \<Rightarrow> bool" where
  "truthy None = False"
| "truthy (Some JNull) = False"
| "truthy (Some (JBool b)) = b"
| "truthy (Some (JNum n)) = (n \<noteq> 0)"
| "truthy (Some (JStr s)) = (s \<noteq> [])"
| "truthy (Some (JArr xs)) = True"
| "truthy (Some (JObj kvs)) = True"

text \<open>
  A request field that is a string or absent. \<open>truthy_str\<close> is its truthiness,
  \<open>template_str\<close> what a template literal \<open>`${v}`\<close> prints for it, \<open>or_else\<close> is
  \<open>a || b\<close> on strings.
\<close>

fun truthy_str :: "string option \<Rightarrow> bool" where
  "truthy_str None = False"
| "truthy_str (Some s) = (s \<noteq> [])"

fun template_str :: "string option \<Rightarrow> string" where
  "template_str None = ''undefined''"
| "template_str (Some s) = s"

definition or_else :: "string \<Rightarrow> string \<Rightarrow> string" where
  "or_else a b = (if a \<noteq> [] then a else b)"

text \<open>\<open>s.replace(pat, rep)\<close> with a string pattern: the first occurrence only.\<close>

fun replace_first :: "string \<Rightarrow> string \<Rightarrow> string \<Rightarrow> string" where
  "replace_first pat rep [] = (if pat = [] then rep else [])"
| "replace_first pat rep (c # cs) =
     (if take (length pat) (c # cs) = pat then rep @ drop (length pat) (c # cs)
      else c # replace_first pat rep cs)"

text \<open>
  An object literal under construction: properties in insertion order, a value of
  \<open>None\<close> being \<open>undefined\<close>. \<open>set_prop\<close> assigns one property (in place when the key
  exists), \<open>spread\<close> is \<open>{...obj, ...meta}\<close>, and \<open>JSON_stringify_obj\<close> is the object
  that \<open>JSON.parse\<close> reads back from \<open>JSON.stringify\<close>: properties whose value is
  \<open>undefined\<close> are left out.
\<close>

fun set_prop :: "string \<Rightarrow> 'v \<Rightarrow> (string \<times> 'v) list \<Rightarrow> (string \<times> 'v) list" where
  "set_prop k v [] = [(k, v)]"
| "set_prop k v ((k', v') # ps) =
     (if k' = k then (k, v) # ps else (k', v') # set_prop k v ps)"

fun spread :: "(string \<times> 'v) list \<Rightarrow> (string \<times> 'v) list \<Rightarrow> (string \<times> 'v) list" where
  "spread obj [] = obj"
| "spread obj ((k, v) # meta) = spread (set_prop k v obj) meta"

fun defined_props :: "(string \<times> json option) list \<Rightarrow> (string \<times> json) list" where
  "defined_props [] = []"
| "defined_props ((k, None) # ps) = defined_props ps"
| "defined_props ((k, Some v) # ps) = (k, v) # defined_props ps"

definition JSON_stringify_obj :: "(string \<times> json option) list \<Rightarrow> json" where
  "JSON_stringify_obj ps = JObj (defined_props ps)"

text \<open>A thrown error: \<open>e.code\<close>, \<open>e.reason\<close>, \<open>e.message\<close>.\<close>

datatype exn = Exn (code: "string option") (reason: "string option") (message: string)

subsection \<open>Environment and world\<close>

text \<open>What \<open>fetch\<close> plus \<open>resp.json()\<close> give: a rejected request, a body that does
  not parse, or the parsed body.\<close>

datatype fetch_outcome = NetworkError | BadBody | Body json

text \<open>
  A file of the lock directory, as \<open>readFile\<close> and \<open>JSON.parse\<close> see it: one that
  cannot be read, one whose text is not JSON, or its parsed content.
\<close>

datatype lockfile = Unreadable | Garbled | Doc json

datatype chain_op = Bind | ClaimAmount | AdminClaimFor | TxWait | LastClaim | Cooldown

datatype event =
    FsMkdir string
  | FsRead string
  | FsWrite string
  | FsUnlink string
  | Siteverify
  | Chain chain_op

text \<open>
  The environment of one request: configuration (\<open>process.env\<close>, \<open>os.tmpdir()\<close>),
  library functions (SHA-256 as hex, \<open>ethers.isAddress\<close>) and the answers of the
  outside world. \<open>clock e n\<close> is what the \<open>n\<close>-th call of \<open>Date.now()\<close> returns;
  \<open>siteverify e secret response remoteip\<close> is the captcha endpoint's answer;
  \<open>bind_res\<close> is the error, if any, thrown while the provider, signer and contract
  objects are built; the remaining fields are the results of the contract calls.
\<close>

record env =
  clock :: "nat \<Rightarrow> int"
  tmpdir :: string
  sha256hex :: "string \<Rightarrow> string"
  isAddress :: "string \<Rightarrow> bool"
  HCAPTCHA_SECRET :: string
  TRUST_PROXY :: bool
  POLYGON_RPC :: "string option"
  AVAX_RPC :: "string option"
  SEPOLIA_RPC :: "string option"
  BASE_RPC :: "string option"
  siteverify :: "string \<Rightarrow> string \<Rightarrow> string option \<Rightarrow> fetch_outcome"
  bind_res :: "exn option"
  claimAmount_res :: "exn + 256 word"
  adminClaimFor_res :: "string \<Rightarrow> exn + string"
  wait_res :: "exn option"
  lastClaim_res :: "string \<Rightarrow> exn + 256 word"
  cooldown_res :: "exn + 256 word"

text \<open>
  The world a request runs in: the files of the lock directory by path, the number of
  clock readings taken so far, and the trace of every interaction with the filesystem,
  the captcha endpoint and the chain, oldest first.
\<close>

record world =
  files :: "string \<rightharpoonup> lockfile"
  ticks :: nat
  trace :: "event list"

definition emit :: "event \<Rightarrow> world \<Rightarrow> world" where
  "emit ev w = w\<lparr>trace := trace w @ [ev]\<rparr>"

definition Date_now :: "env \<Rightarrow> world \<Rightarrow> int \<times> world" where
  "Date_now e w = (clock e (ticks w), w\<lparr>ticks := Suc (ticks w)\<rparr>)"

subsection \<open>hCaptcha verification\<close>

text \<open>
  \<open>verifyHCaptcha(token, remoteip)\<close>. The request carries \<open>token || ''\<close> and, when
  \<open>remoteip\<close> is not empty, the address. A rejected fetch, a body that is not JSON and
  the \<open>TypeError\<close> of \<open>data.success\<close> on \<open>null\<close> all end in the \<open>catch\<close>.
\<close>

definition verifyHCaptcha :: "env \<Rightarrow> string option \<Rightarrow> string \<Rightarrow> world \<Rightarrow> bool \<times> world" where
  "verifyHCaptcha e token remoteip w =
     (if HCAPTCHA_SECRET e = [] then (False, w)
      else
        let response = (if truthy_str token then template_str token else []);
            ip_param = (if remoteip \<noteq> [] then Some remoteip else None);
            w1 = emit Siteverify w
        in case siteverify e (HCAPTCHA_SECRET e) response ip_param of
             NetworkError \<Rightarrow> (False, w1)
           | BadBody \<Rightarrow> (False, w1)
           | Body data \<Rightarrow>
               (case data of
                  JNull \<Rightarrow> (False, w1)
                | _ \<Rightarrow> (truthy (js_member data ''success''), w1)))"

subsection \<open>The lock store\<close>

definition COOLDOWN_MS :: int where
  "COOLDOWN_MS = 24 * 60 * 60 * 1000"

definition PENDING_MS :: int where
  "PENDING_MS = 60 * 1000"

definition LOCK_DIR :: "env \<Rightarrow> string" where
  "LOCK_DIR e = tmpdir e @ ''/strawhat-faucet-locks''"

definition hashKey :: "env \<Rightarrow> string \<Rightarrow> string option \<Rightarrow> string" where
  "hashKey e ip network = sha256hex e (ip @ ''|'' @ template_str network)"

definition lockPathFor :: "env \<Rightarrow> string \<Rightarrow> string option \<Rightarrow> string" where
  "lockPathFor e ip network = LOCK_DIR e @ ''/'' @ hashKey e ip network @ ''.lock''"

definition pendingPathFor :: "env \<Rightarrow> string \<Rightarrow> string option \<Rightarrow> string" where
  "pendingPathFor e ip network = LOCK_DIR e @ ''/'' @ hashKey e ip network @ ''.pending''"

text \<open>
  The filesystem calls. \<open>mkdir\<close> with \<open>recursive\<close> leaves the files alone;
  \<open>readFile\<close> throws on a missing or unreadable file; \<open>writeFile\<close> replaces the
  file; \<open>unlink\<close> removes it and throws when there is none. The store is taken to be
  writable: a write or a removal of an existing file does not fail. Every caller
  swallows the errors of \<open>mkdir\<close>, \<open>writeFile\<close> and \<open>unlink\<close>, so these three return
  the world only.
\<close>

definition ensureLockDir :: "env \<Rightarrow> world \<Rightarrow> world" where
  "ensureLockDir e w = emit (FsMkdir (LOCK_DIR e)) w"

definition readFile :: "string \<Rightarrow> world \<Rightarrow> (exn + lockfile) \<times> world" where
  "readFile p w =
     (let w1 = emit (FsRead p) w
      in case files w p of
           None \<Rightarrow> (Inl (Exn (Some ''ENOENT'') None ''no such file or directory''), w1)
         | Some Unreadable \<Rightarrow> (Inl (Exn (Some ''EACCES'') None ''permission denied''), w1)
         | Some f \<Rightarrow> (Inr f, w1))"

definition JSON_parse :: "lockfile \<Rightarrow> exn + json" where
  "JSON_parse f =
     (case f of
        Doc j \<Rightarrow> Inr j
      | _ \<Rightarrow> Inl (Exn None None ''Unexpected token''))"

definition writeFile_quiet :: "string \<Rightarrow> json \<Rightarrow> world \<Rightarrow> world" where
  "writeFile_quiet p j w = emit (FsWrite p) (w\<lparr>files := (files w)(p \<mapsto> Doc j)\<rparr>)"

definition unlink_quiet :: "string \<Rightarrow> world \<Rightarrow> world" where
  "unlink_quiet p w = emit (FsUnlink p) (w\<lparr>files := (files w)(p := None)\<rparr>)"

text \<open>
  The body shared by \<open>getIpCooldown\<close> and \<open>getIpPending\<close>, which differ in the path
  only: read, parse, take the time, compare. A record that is expired or has no numeric
  \<open>expiresAt\<close> is removed; a failed read or parse returns 0 from the outer \<open>catch\<close>.
\<close>

definition remaining_at :: "env \<Rightarrow> string \<Rightarrow> world \<Rightarrow> int \<times> world" where
  "remaining_at e p w =
     (case readFile p w of
        (Inl err, w1) \<Rightarrow> (0, w1)
      | (Inr raw, w1) \<Rightarrow>
          (case JSON_parse raw of
             Inl err \<Rightarrow> (0, w1)
           | Inr data \<Rightarrow>
               (case Date_now e w1 of
                  (now, w2) \<Rightarrow>
                    (case js_member data ''expiresAt'' of
                       Some (JNum x) \<Rightarrow>
                         if x > now then (x - now, w2) else (0, unlink_quiet p w2)
                     | _ \<Rightarrow> (0, unlink_quiet p w2)))))"

definition getIpCooldown :: "env \<Rightarrow> string \<Rightarrow> string option \<Rightarrow> world \<Rightarrow> int \<times> world" where
  "getIpCooldown e ip network w = remaining_at e (lockPathFor e ip network) (ensureLockDir e w)"

definition getIpPending :: "env \<Rightarrow> string \<Rightarrow> string option \<Rightarrow> world \<Rightarrow> int \<times> world" where
  "getIpPending e ip network w = remaining_at e (pendingPathFor e ip network) (ensureLockDir e w)"

text \<open>
  \<open>setIpCooldown\<close> and \<open>setIpPending\<close>: two clock readings, one for each of
  \<open>firstSeenAt\<close> and \<open>expiresAt\<close>, then the metadata spread over them.
\<close>

definition lock_payload :: "int \<Rightarrow> int \<Rightarrow> (string \<times> json option) list \<Rightarrow> json" where
  "lock_payload first expires meta =
     JSON_stringify_obj
       (spread [(''firstSeenAt'', Some (JNum first)), (''expiresAt'', Some (JNum expires))] meta)"

definition setIpCooldown ::
  "env \<Rightarrow> string \<Rightarrow> string option \<Rightarrow> (string \<times> json option) list \<Rightarrow> world \<Rightarrow> world" where
  "setIpCooldown e ip network meta w =
     (let w1 = ensureLockDir e w;
          p = lockPathFor e ip network
      in case Date_now e w1 of
           (t1, w2) \<Rightarrow>
             (case Date_now e w2 of
                (t2, w3) \<Rightarrow> writeFile_quiet p (lock_payload t1 (t2 + COOLDOWN_MS) meta) w3))"

definition clearIpCooldown :: "env \<Rightarrow> string \<Rightarrow> string option \<Rightarrow> world \<Rightarrow> world" where
  "clearIpCooldown e ip network w = unlink_quiet (lockPathFor e ip network) w"

definition setIpPending ::
  "env \<Rightarrow> string \<Rightarrow> string option \<Rightarrow> (string \<times> json option) list \<Rightarrow> world \<Rightarrow> world" where
  "setIpPending e ip network meta w =
     (let w1 = ensureLockDir e w;
          p = pendingPathFor e ip network
      in case Date_now e w1 of
           (t1, w2) \<Rightarrow>
             (case Date_now e w2 of
                (t2, w3) \<Rightarrow> writeFile_quiet p (lock_payload t1 (t2 + PENDING_MS) meta) w3))"

definition clearIpPending :: "env \<Rightarrow> string \<Rightarrow> string option \<Rightarrow> world \<Rightarrow> world" where
  "clearIpPending e ip network w = unlink_quiet (pendingPathFor e ip network) w"

subsection \<open>Configuration tables and the client address\<close>

text \<open>
  \<open>RPC[network]\<close> and \<open>FAUCET_CONTRACTS[network]\<close> are property reads on object
  literals: an own property gives its value (\<open>undefined\<close> when the environment variable
  is not set), and a key of \<open>Object.prototype\<close> gives the inherited member, which is
  truthy.
\<close>

datatype jsval = Undefined | Str string | Inherited

definition Object_prototype_keys :: "string list" where
  "Object_prototype_keys =
     [''constructor'', ''__proto__'', ''hasOwnProperty'', ''isPrototypeOf'',
      ''propertyIsEnumerable'', ''toLocaleString'', ''toString'', ''valueOf'',
      ''__defineGetter__'', ''__defineSetter__'', ''__lookupGetter__'', ''__lookupSetter__'']"

definition js_lookup :: "(string \<times> string option) list \<Rightarrow> string \<Rightarrow> jsval" where
  "js_lookup tbl k =
     (case map_of tbl k of
        Some (Some v) \<Rightarrow> Str v
      | Some None \<Rightarrow> Undefined
      | None \<Rightarrow> if k \<in> set Object_prototype_keys then Inherited else Undefined)"

fun truthy_val :: "jsval \<Rightarrow> bool" where
  "truthy_val Undefined = False"
| "truthy_val (Str s) = (s \<noteq> [])"
| "truthy_val Inherited = True"

definition FAUCET_CONTRACTS :: "(string \<times> string option) list" where
  "FAUCET_CONTRACTS =
     [(''amoy'', Some ''0x9c33b5Ad90570262A4b49abAFf47e4Ef7DeC3c08''),
      (''avax'', Some ''0x9c33b5Ad90570262A4b49abAFf47e4Ef7DeC3c08''),
      (''sepolia'', Some ''0x9c33b5Ad90570262A4b49abAFf47e4Ef7DeC3c08''),
      (''base'', Some ''0x9c33b5Ad90570262A4b49abAFf47e4Ef7DeC3c08'')]"

definition RPC :: "env \<Rightarrow> (string \<times> string option) list" where
  "RPC e =
     [(''amoy'', POLYGON_RPC e),
      (''avax'', AVAX_RPC e),
      (''sepolia'', SEPOLIA_RPC e),
      (''base'', BASE_RPC e)]"

text \<open>
  The request: the three fields of the JSON body (an object), each a string or absent,
  and the two addresses Express offers, \<open>req.ip\<close> and
  \<open>req.socket?.remoteAddress\<close>.
\<close>

record request =
  body_network :: "string option"
  body_recipient :: "string option"
  body_captchaToken :: "string option"
  req_ip :: "string option"
  remoteAddress :: "string option"

definition getClientIp :: "env \<Rightarrow> request \<Rightarrow> string" where
  "getClientIp e req =
     (if TRUST_PROXY e then
        or_else
          (or_else
             (replace_first ''::ffff:'' [] (case req_ip req of None \<Rightarrow> [] | Some a \<Rightarrow> a))
             (case remoteAddress req of None \<Rightarrow> [] | Some a \<Rightarrow> a))
          ''0.0.0.0''
      else
        or_else
          (replace_first ''::ffff:'' [] (case remoteAddress req of None \<Rightarrow> [] | Some a \<Rightarrow> a))
          ''0.0.0.0'')"

subsection \<open>Responses and numbers\<close>

record response =
  status :: nat
  success :: bool
  error :: "string option"
  wait :: "int option"
  txHash :: "string option"

definition failure :: "nat \<Rightarrow> string \<Rightarrow> response" where
  "failure st msg = \<lparr>status = st, success = False, error = Some msg, wait = None, txHash = None\<rparr>"

definition failure_wait :: "nat \<Rightarrow> string \<Rightarrow> int \<Rightarrow> response" where
  "failure_wait st msg n =
     \<lparr>status = st, success = False, error = Some msg, wait = Some n, txHash = None\<rparr>"

definition succeeded :: "string \<Rightarrow> response" where
  "succeeded h = \<lparr>status = 200, success = True, error = None, wait = None, txHash = Some h\<rparr>"

text \<open>The outer \<open>catch\<close> of the handler: status 500 with the error's message.\<close>

definition internal_error :: "exn \<Rightarrow> response" where
  "internal_error ex = failure 500 (message ex)"

text \<open>\<open>Math.ceil(a / b)\<close> on integers, \<open>b\<close> positive.\<close>

definition ceil_div :: "int \<Rightarrow> int \<Rightarrow> int" where
  "ceil_div a b = - ((- a) div b)"

text \<open>
  \<open>Number(x)\<close> for a BigInt \<open>x\<close>: the nearest double, ties to even. A double has 53
  significant bits, so an integer of up to 53 bits is itself, and a longer one keeps its
  top 53 bits, rounded. (The handler applies it to sums below \<open>2 ^ 257\<close>, far from the
  overflow to infinity.)
\<close>

fun bitlen :: "nat \<Rightarrow> nat" where
  "bitlen n = (if n = 0 then 0 else Suc (bitlen (n div 2)))"

declare bitlen.simps [simp del]

definition Number_of_BigInt :: "int \<Rightarrow> int" where
  "Number_of_BigInt x =
     (let a = \<bar>x\<bar>; n = bitlen (nat a)
      in if n \<le> 53 then x
         else
           let sh = n - 53;
               q = a div 2 ^ sh;
               r = a mod 2 ^ sh;
               half = 2 ^ (sh - 1);
               q' = (if r > half \<or> (r = half \<and> odd q) then q + 1 else q)
           in sgn x * (q' * 2 ^ sh))"

subsection \<open>The /claim handler\<close>

text \<open>
  The inner \<open>catch\<close> (the error \<open>ex\<close> of \<open>adminClaimFor\<close> or of \<open>tx.wait\<close>). For
  the contract's cooldown rejection it reads \<open>lastClaim\<close> and \<open>cooldown\<close>, and an
  error thrown by either read leaves through the outer \<open>catch\<close>; any other error is
  thrown again after the pending lock is cleared.
\<close>

definition dispatch_failed ::
  "env \<Rightarrow> string \<Rightarrow> string option \<Rightarrow> string \<Rightarrow> exn \<Rightarrow> world \<Rightarrow> response \<times> world" where
  "dispatch_failed e clientIp network recipient ex w =
     (if code ex = Some ''CALL_EXCEPTION'' \<and> reason ex = Some ''Wait before next claim'' then
        (let w1 = emit (Chain LastClaim) w
         in (case lastClaim_res e recipient of
               Inl ex2 \<Rightarrow> (internal_error ex2, w1)
             | Inr lastv \<Rightarrow>
                 (let w2 = emit (Chain Cooldown) w1
                  in (case cooldown_res e of
                        Inl ex3 \<Rightarrow> (internal_error ex3, w2)
                      | Inr cooldownv \<Rightarrow>
                          (case Date_now e w2 of
                             (t, w3) \<Rightarrow>
                               (let now = t div 1000;
                                    waitSeconds =
                                      Number_of_BigInt (uint lastv + uint cooldownv - now);
                                    w4 = clearIpPending e clientIp network w3
                                in (failure_wait 400 ''Wait before next claim''
                                      (if waitSeconds > 0 then waitSeconds else 0), w4)))))))
      else (internal_error ex, clearIpPending e clientIp network w))"

text \<open>The inner \<open>try\<close>: send the transaction, wait for it, then promote the lock.\<close>

definition dispatch ::
  "env \<Rightarrow> string \<Rightarrow> string option \<Rightarrow> string \<Rightarrow> world \<Rightarrow> response \<times> world" where
  "dispatch e clientIp network recipient w =
     (let w1 = emit (Chain AdminClaimFor) w
      in (case adminClaimFor_res e recipient of
            Inl ex \<Rightarrow> dispatch_failed e clientIp network recipient ex w1
          | Inr h \<Rightarrow>
              (let w2 = emit (Chain TxWait) w1
               in (case wait_res e of
                     Some ex \<Rightarrow> dispatch_failed e clientIp network recipient ex w2
                   | None \<Rightarrow>
                       (let w3 = setIpCooldown e clientIp network
                                   [(''lastAddress'', Some (JStr recipient)),
                                    (''lastNetwork'', map_option JStr network),
                                    (''txHash'', Some (JStr h))] w2;
                            w4 = clearIpPending e clientIp network w3
                        in (succeeded h, w4))))))"

text \<open>
  The part of the handler after the pending lock is written: network, recipient,
  contract binding, \<open>claimAmount\<close>, dispatch. An error thrown by the binding or by
  \<open>claimAmount\<close> is caught by the outer \<open>catch\<close>.
\<close>

definition validate_and_dispatch ::
  "env \<Rightarrow> string \<Rightarrow> string option \<Rightarrow> string option \<Rightarrow> world \<Rightarrow> response \<times> world" where
  "validate_and_dispatch e clientIp network recipient w4 =
     (let rpcUrl = js_lookup (RPC e) (template_str network);
          contractAddress = js_lookup FAUCET_CONTRACTS (template_str network)
      in if \<not> truthy_val rpcUrl \<or> \<not> truthy_val contractAddress then
           (failure 400 ''Invalid network'', w4)
         else
           (case recipient of
              None \<Rightarrow> (failure 400 ''Invalid recipient address'', w4)
            | Some r \<Rightarrow>
                if \<not> isAddress e r then (failure 400 ''Invalid recipient address'', w4)
                else
                  (let w5 = emit (Chain Bind) w4
                   in (case bind_res e of
                         Some ex \<Rightarrow> (internal_error ex, w5)
                       | None \<Rightarrow>
                           (let w6 = emit (Chain ClaimAmount) w5
                            in (case claimAmount_res e of
                                  Inl ex \<Rightarrow> (internal_error ex, w6)
                                | Inr claimAmt \<Rightarrow> dispatch e clientIp network r w6))))))"

text \<open>
  The handler of \<open>POST /claim\<close>, in the order of the source: captcha, cooldown lock,
  pending lock, writing the pending lock, then the rest.
\<close>

definition claim :: "env \<Rightarrow> request \<Rightarrow> world \<Rightarrow> response \<times> world" where
  "claim e req w =
     (let network = body_network req;
          recipient = body_recipient req;
          captchaToken = body_captchaToken req;
          clientIp = getClientIp e req
      in if \<not> truthy_str captchaToken then (failure 400 ''Invalid captcha'', w)
         else
           (case verifyHCaptcha e captchaToken clientIp w of
              (captchaOk, w1) \<Rightarrow>
                if \<not> captchaOk then (failure 400 ''Invalid captcha'', w1)
                else
                  (case getIpCooldown e clientIp network w1 of
                     (remaining, w2) \<Rightarrow>
                       if remaining > 0 then
                         (failure_wait 429 ''Wait before next claim'' (ceil_div remaining 1000), w2)
                       else
                         (case getIpPending e clientIp network w2 of
                            (pending, w3) \<Rightarrow>
                              if pending > 0 then
                                (failure_wait 429 ''Wait before next claim''
                                   (ceil_div pending 1000), w3)
                              else
                                validate_and_dispatch e clientIp network recipient
                                  (setIpPending e clientIp network
                                     [(''recipient'', map_option JStr recipient),
                                      (''network'', map_option JStr network)] w3)))))"

text \<open>The events one request adds to the trace.\<close>

definition events :: "env \<Rightarrow> request \<Rightarrow> world \<Rightarrow> event list" where
  "events e req w = drop (length (trace w)) (trace (snd (claim e req w)))"

subsection \<open>Names for the stages of a request\<close>

text \<open>
  The worlds a request passes through and the conditions under which it goes on, read
  off the handler: the theorems below use them to say how far a request gets.
  \<open>admitted\<close> holds when the request has a captcha token, the verifier accepts it, and
  neither lock read reports remaining time; \<open>pending_written\<close> is the world right
  after the pending lock is then written. \<open>supported\<close> and \<open>valid_recipient\<close> are the
  two validations, \<open>dispatches\<close> says that the handler gets as far as calling
  \<open>adminClaimFor\<close>, and \<open>dispatch_error\<close> is the error the inner \<open>try\<close> throws,
  if any (from \<open>adminClaimFor\<close>, else from \<open>tx.wait\<close>).
\<close>

definition after_captcha :: "env \<Rightarrow> request \<Rightarrow> world \<Rightarrow> world" where
  "after_captcha e req w =
     snd (verifyHCaptcha e (body_captchaToken req) (getClientIp e req) w)"

definition after_cooldown_check :: "env \<Rightarrow> request \<Rightarrow> world \<Rightarrow> world" where
  "after_cooldown_check e req w =
     snd (getIpCooldown e (getClientIp e req) (body_network req) (after_captcha e req w))"

definition after_pending_check :: "env \<Rightarrow> request \<Rightarrow> world \<Rightarrow> world" where
  "after_pending_check e req w =
     snd (getIpPending e (getClientIp e req) (body_network req) (after_cooldown_check e req w))"

definition admitted :: "env \<Rightarrow> request \<Rightarrow> world \<Rightarrow> bool" where
  "admitted e req w \<longleftrightarrow>
     truthy_str (body_captchaToken req) \<and>
     fst (verifyHCaptcha e (body_captchaToken req) (getClientIp e req) w) \<and>
     \<not> 0 < fst (getIpCooldown e (getClientIp e req) (body_network req) (after_captcha e req w)) \<and>
     \<not> 0 < fst (getIpPending e (getClientIp e req) (body_network req)
                 (after_cooldown_check e req w))"

definition pending_written :: "env \<Rightarrow> request \<Rightarrow> world \<Rightarrow> world" where
  "pending_written e req w =
     setIpPending e (getClientIp e req) (body_network req)
       [(''recipient'', map_option JStr (body_recipient req)),
        (''network'', map_option JStr (body_network req))]
       (after_pending_check e req w)"

definition supported :: "env \<Rightarrow> string option \<Rightarrow> bool" where
  "supported e network \<longleftrightarrow>
     truthy_val (js_lookup (RPC e) (template_str network)) \<and>
     truthy_val (js_lookup FAUCET_CONTRACTS (template_str network))"

fun valid_recipient :: "env \<Rightarrow> string option \<Rightarrow> bool" where
  "valid_recipient e None = False"
| "valid_recipient e (Some r) = isAddress e r"

definition dispatches :: "env \<Rightarrow> request \<Rightarrow> world \<Rightarrow> bool" where
  "dispatches e req w \<longleftrightarrow>
     admitted e req w \<and> supported e (body_network req) \<and>
     valid_recipient e (body_recipient req) \<and> bind_res e = None \<and>
     (case claimAmount_res e of Inl ex \<Rightarrow> False | Inr a \<Rightarrow> True)"

definition dispatch_error :: "env \<Rightarrow> string \<Rightarrow> exn option" where
  "dispatch_error e recipient =
     (case adminClaimFor_res e recipient of Inl ex \<Rightarrow> Some ex | Inr h \<Rightarrow> wait_res e)"

text \<open>A lock file that is there but cannot be used: unreadable, not JSON, or without a
  numeric \<open>expiresAt\<close>.\<close>

fun corrupt :: "lockfile \<Rightarrow> bool" where
  "corrupt Unreadable = True"
| "corrupt Garbled = True"
| "corrupt (Doc j) = (\<not> is_number (js_member j ''expiresAt''))"

text \<open>A list of events without any call to the chain.\<close>

definition chain_free :: "event list \<Rightarrow> bool" where
  "chain_free evs \<longleftrightarrow> list_all (\<lambda>ev. case ev of Chain op \<Rightarrow> False | _ \<Rightarrow> True) evs"

subsection \<open>A concrete deployment for the examples\<close>

text \<open>
  One environment, request and starting world on which the theorems below are
  instantiated. The client is \<open>203.0.113.7\<close>; \<open>sha256hex_table\<close> holds the SHA-256
  digests of the three keys the examples hash, and \<open>isAddress_table\<close> what
  \<open>ethers.isAddress\<close> answers on the two recipients they use (an all-lowercase
  address is valid, \<open>not-an-address\<close> is not).
\<close>

definition alice :: string where
  "alice = ''0x00000000000000000000000000000000000000a1''"

definition sha256hex_table :: "string \<Rightarrow> string" where
  "sha256hex_table s =
     (if s = ''203.0.113.7|sepolia'' then
        ''70ccaabdf86f0356df4af43a72fccbac99b9c4c23f41bdc7b149f601ac175d71''
      else if s = ''203.0.113.7|amoy'' then
        ''8342a1c09cecd7ec4d6e01a208d2b38498b2ed7866ae1bc2d87c1dfa4e3ae28b''
      else if s = ''203.0.113.7|unknown'' then
        ''0bb1f93c909fcb5174bf267ffe181426bf6b2074fc0f4f8baa0273a52ab7ff2a''
      else [])"

definition isAddress_table :: "string \<Rightarrow> bool" where
  "isAddress_table s = (s = alice)"

definition env0 :: env where
  "env0 =
     \<lparr>clock = (\<lambda>n. 1700000000000 + int n),
      tmpdir = ''/tmp'',
      sha256hex = sha256hex_table,
      isAddress = isAddress_table,
      HCAPTCHA_SECRET = ''s3cret'',
      TRUST_PROXY = False,
      POLYGON_RPC = Some ''https://rpc.example/amoy'',
      AVAX_RPC = None,
      SEPOLIA_RPC = Some ''https://rpc.example/sepolia'',
      BASE_RPC = None,
      siteverify = (\<lambda>secret response remoteip.
        Body (JObj [(''success'', JBool (response = ''tok''))])),
      bind_res = None,
      claimAmount_res = Inr 1000,
      adminClaimFor_res = (\<lambda>r. Inr ''0xfeed''),
      wait_res = None,
      lastClaim_res = (\<lambda>r. Inr 2),
      cooldown_res = Inr 86400\<rparr>"

definition req0 :: request where
  "req0 =
     \<lparr>body_network = Some ''sepolia'',
      body_recipient = Some alice,
      body_captchaToken = Some ''tok'',
      req_ip = None,
      remoteAddress = Some ''::ffff:203.0.113.7''\<rparr>"

definition world0 :: world where
  "world0 = \<lparr>files = Map.empty, ticks = 0, trace = []\<rparr>"

text \<open>The contract's cooldown rejection, as ethers reports it.\<close>

definition wait_rejection :: exn where
  "wait_rejection =
     Exn (Some ''CALL_EXCEPTION'') (Some ''Wait before next claim'')
       ''execution reverted: Wait before next claim''"

text \<open>A lock file that is missing or cannot be used.\<close>

fun unusable :: "lockfile option \<Rightarrow> bool" where
  "unusable None = True"
| "unusable (Some f) = corrupt f"

subsection \<open>Further inputs for the examples\<close>

text \<open>
  Requests that differ from \<open>req0\<close> in one field; an environment whose contract
  rejects the claim with its cooldown message, the recipient having last claimed at
  second 1699990000; one whose contract call fails for another reason; the two lock
  paths of the client for \<open>sepolia\<close>; and a world in which the client holds a
  cooldown lock with five seconds left.
\<close>

definition req_bad_recipient :: request where
  "req_bad_recipient = req0\<lparr>body_recipient := Some ''not-an-address''\<rparr>"

definition req_unknown_network :: request where
  "req_unknown_network = req0\<lparr>body_network := Some ''unknown''\<rparr>"

definition req_amoy :: request where
  "req_amoy = req0\<lparr>body_network := Some ''amoy''\<rparr>"

definition env_rejecting :: env where
  "env_rejecting =
     env0\<lparr>adminClaimFor_res := (\<lambda>r. Inl wait_rejection),
          lastClaim_res := (\<lambda>r. Inr 1699990000)\<rparr>"

definition env_failing :: env where
  "env_failing =
     env0\<lparr>adminClaimFor_res :=
            (\<lambda>r. Inl (Exn (Some ''INSUFFICIENT_FUNDS'') None ''insufficient funds''))\<rparr>"

definition sepolia_lock :: string where
  "sepolia_lock = ''/tmp/strawhat-faucet-locks/70ccaabdf86f0356df4af43a72fccbac99b9c4c23f41bdc7b149f601ac175d71.lock''"

definition sepolia_pending :: string where
  "sepolia_pending = ''/tmp/strawhat-faucet-locks/70ccaabdf86f0356df4af43a72fccbac99b9c4c23f41bdc7b149f601ac175d71.pending''"

definition world_cooling :: world where
  "world_cooling =
     world0\<lparr>files := [sepolia_lock \<mapsto>
        Doc (JObj [(''firstSeenAt'', JNum 1699913605000), (''expiresAt'', JNum 1700000005000),
                   (''lastAddress'', JStr alice), (''lastNetwork'', JStr ''sepolia''),
                   (''txHash'', JStr ''0xbeef'')])]\<rparr>"

section \<open>Properties\<close>

subsection \<open>Evaluation of the model on concrete inputs\<close>

lemmas eval_defs =
  claim_def validate_and_dispatch_def dispatch_def dispatch_failed_def
  getIpCooldown_def getIpPending_def setIpPending_def setIpCooldown_def clearIpPending_def
  remaining_at_def readFile_def JSON_parse_def writeFile_quiet_def unlink_quiet_def
  ensureLockDir_def emit_def Date_now_def verifyHCaptcha_def lockPathFor_def
  pendingPathFor_def hashKey_def LOCK_DIR_def lock_payload_def JSON_stringify_obj_def
  getClientIp_def or_else_def js_lookup_def RPC_def FAUCET_CONTRACTS_def
  Object_prototype_keys_def failure_def failure_wait_def succeeded_def internal_error_def
  ceil_div_def COOLDOWN_MS_def PENDING_MS_def env0_def req0_def world0_def alice_def
  sha256hex_table_def isAddress_table_def wait_rejection_def events_def Let_def
  after_captcha_def after_cooldown_check_def after_pending_check_def admitted_def
  pending_written_def supported_def dispatches_def dispatch_error_def
  req_bad_recipient_def req_unknown_network_def req_amoy_def env_rejecting_def
  env_failing_def sepolia_lock_def sepolia_pending_def world_cooling_def

subsection \<open>The lock store and the verifier, operation by operation\<close>

lemma lock_pending_paths_differ [simp]:
  "lockPathFor e ip n \<noteq> pendingPathFor e ip n" "pendingPathFor e ip n \<noteq> lockPathFor e ip n"
  by (simp_all add: lockPathFor_def pendingPathFor_def)

lemma emit_fields [simp]:
  "files (emit ev w) = files w" "ticks (emit ev w) = ticks w"
  "trace (emit ev w) = trace w @ [ev]"
  by (simp_all add: emit_def)

lemma ensureLockDir_fields [simp]:
  "files (ensureLockDir e w) = files w" "ticks (ensureLockDir e w) = ticks w"
  "trace (ensureLockDir e w) = trace w @ [FsMkdir (LOCK_DIR e)]"
  by (simp_all add: ensureLockDir_def)

lemma unlink_quiet_fields [simp]:
  "files (unlink_quiet p w) = (files w)(p := None)" "ticks (unlink_quiet p w) = ticks w"
  "trace (unlink_quiet p w) = trace w @ [FsUnlink p]"
  by (simp_all add: unlink_quiet_def)

lemma writeFile_quiet_fields [simp]:
  "files (writeFile_quiet p j w) = (files w)(p \<mapsto> Doc j)" "ticks (writeFile_quiet p j w) = ticks w"
  "trace (writeFile_quiet p j w) = trace w @ [FsWrite p]"
  by (simp_all add: writeFile_quiet_def)

lemma chain_free_simps [simp]:
  "chain_free []"
  "chain_free (FsMkdir p # evs) = chain_free evs"
  "chain_free (FsRead p # evs) = chain_free evs"
  "chain_free (FsWrite p # evs) = chain_free evs"
  "chain_free (FsUnlink p # evs) = chain_free evs"
  "chain_free (Siteverify # evs) = chain_free evs"
  "chain_free (Chain op # evs) = False"
  "chain_free (xs @ ys) = (chain_free xs \<and> chain_free ys)"
  by (simp_all add: chain_free_def)

lemma chain_free_no_chain: "chain_free evs \<Longrightarrow> Chain op \<notin> set evs"
  by (auto simp: chain_free_def list_all_iff)

text \<open>The four outcomes of a lock read.\<close>

lemma remaining_at_live:
  assumes "files w p = Some (Doc j)" and "js_member j ''expiresAt'' = Some (JNum x)"
    and "clock e (ticks w) < x"
  shows "remaining_at e p w =
           (x - clock e (ticks w), (emit (FsRead p) w)\<lparr>ticks := Suc (ticks w)\<rparr>)"
  using assms by (simp add: remaining_at_def readFile_def JSON_parse_def Date_now_def)

lemma remaining_at_expired:
  assumes "files w p = Some (Doc j)" and "js_member j ''expiresAt'' = Some (JNum x)"
    and "x \<le> clock e (ticks w)"
  shows "remaining_at e p w =
           (0, unlink_quiet p ((emit (FsRead p) w)\<lparr>ticks := Suc (ticks w)\<rparr>))"
  using assms by (simp add: remaining_at_def readFile_def JSON_parse_def Date_now_def)

lemma not_number_case:
  "\<not> is_number v \<Longrightarrow> (case v of None \<Rightarrow> b | Some JNull \<Rightarrow> b | Some (JBool x) \<Rightarrow> b
      | Some (JNum x) \<Rightarrow> f x | Some (JStr x) \<Rightarrow> b | Some (JArr x) \<Rightarrow> b | Some (JObj x) \<Rightarrow> b) = b"
proof (cases v)
  case None
  then show ?thesis by simp
next
  case (Some u)
  assume "\<not> is_number v"
  with Some show ?thesis by (cases u) simp_all
qed

lemma remaining_at_not_number:
  assumes "files w p = Some (Doc j)" and "\<not> is_number (js_member j ''expiresAt'')"
  shows "remaining_at e p w =
           (0, unlink_quiet p ((emit (FsRead p) w)\<lparr>ticks := Suc (ticks w)\<rparr>))"
  using assms
  by (simp add: remaining_at_def readFile_def JSON_parse_def Date_now_def not_number_case)

lemma remaining_at_unread:
  assumes "files w p = None \<or> files w p = Some Unreadable \<or> files w p = Some Garbled"
  shows "remaining_at e p w = (0, emit (FsRead p) w)"
  using assms by (auto simp: remaining_at_def readFile_def JSON_parse_def)

lemma is_number_cases:
  obtains (num) x where "v = Some (JNum x)" | (other) "\<not> is_number v"
proof (cases v)
  case None
  then show ?thesis using other by simp
next
  case (Some u)
  then show ?thesis using num other by (cases u) simp_all
qed

lemma remaining_at_cases:
  obtains
    (unread) "files w p = None \<or> files w p = Some Unreadable \<or> files w p = Some Garbled"
      "remaining_at e p w = (0, emit (FsRead p) w)"
  | (removed) j where "files w p = Some (Doc j)"
      "remaining_at e p w = (0, unlink_quiet p ((emit (FsRead p) w)\<lparr>ticks := Suc (ticks w)\<rparr>))"
  | (live) j x where "files w p = Some (Doc j)" "js_member j ''expiresAt'' = Some (JNum x)"
      "clock e (ticks w) < x"
      "remaining_at e p w = (x - clock e (ticks w), (emit (FsRead p) w)\<lparr>ticks := Suc (ticks w)\<rparr>)"
proof (cases "files w p")
  case None
  then show ?thesis using unread remaining_at_unread [of w p e] by simp
next
  case (Some f)
  show ?thesis
  proof (cases f)
    case Unreadable
    with Some show ?thesis using unread remaining_at_unread [of w p e] by simp
  next
    case Garbled
    with Some show ?thesis using unread remaining_at_unread [of w p e] by simp
  next
    case (Doc j)
    with Some have f: "files w p = Some (Doc j)" by simp
    show ?thesis
    proof (cases "js_member j ''expiresAt''" rule: is_number_cases)
      case (num x)
      show ?thesis
      proof (cases "clock e (ticks w) < x")
        case True
        from live [OF f num True remaining_at_live [OF f num True]] show ?thesis .
      next
        case False
        then have "x \<le> clock e (ticks w)" by simp
        from removed [OF f remaining_at_expired [OF f num this]] show ?thesis .
      qed
    next
      case other
      from removed [OF f remaining_at_not_number [OF f other]] show ?thesis .
    qed
  qed
qed

text \<open>What any lock read leaves alone.\<close>

lemma remaining_at_frame:
  assumes "remaining_at e p w = (r, w')"
  shows "0 \<le> r \<and> (\<forall>q. q \<noteq> p \<longrightarrow> files w' q = files w q) \<and>
         (ticks w' = ticks w \<or> ticks w' = Suc (ticks w)) \<and>
         (\<exists>evs. trace w' = trace w @ evs \<and> chain_free evs \<and> FsRead p \<in> set evs) \<and>
         (r = 0 \<or> files w' = files w)"
  by (rule remaining_at_cases [of w p e]) (use assms in auto)

lemma verifyHCaptcha_iff:
  "fst (verifyHCaptcha e token ip w) \<longleftrightarrow>
     HCAPTCHA_SECRET e \<noteq> [] \<and>
     (\<exists>data. siteverify e (HCAPTCHA_SECRET e)
                (if truthy_str token then template_str token else [])
                (if ip \<noteq> [] then Some ip else None) = Body data \<and>
             truthy (js_member data ''success''))"
proof (cases "HCAPTCHA_SECRET e = []")
  case True
  then show ?thesis by (simp add: verifyHCaptcha_def)
next
  case False
  show ?thesis
  proof (cases "siteverify e (HCAPTCHA_SECRET e)
                (if truthy_str token then template_str token else [])
                (if ip \<noteq> [] then Some ip else None)")
    case NetworkError
    with False show ?thesis by (simp add: verifyHCaptcha_def Let_def)
  next
    case BadBody
    with False show ?thesis by (simp add: verifyHCaptcha_def Let_def)
  next
    case (Body data)
    with False show ?thesis by (cases data) (simp_all add: verifyHCaptcha_def Let_def)
  qed
qed

lemma verifyHCaptcha_world:
  "snd (verifyHCaptcha e token ip w) = (if HCAPTCHA_SECRET e = [] then w else emit Siteverify w)"
proof (cases "siteverify e (HCAPTCHA_SECRET e)
                (if truthy_str token then template_str token else [])
                (if ip \<noteq> [] then Some ip else None)")
  case NetworkError
  then show ?thesis by (simp add: verifyHCaptcha_def Let_def)
next
  case BadBody
  then show ?thesis by (simp add: verifyHCaptcha_def Let_def)
next
  case (Body data)
  then show ?thesis by (cases data) (simp_all add: verifyHCaptcha_def Let_def)
qed



lemma remaining_at_unusable:
  assumes "unusable (files w p)"
  shows "fst (remaining_at e p w) = 0"
proof (cases "files w p")
  case None
  then show ?thesis by (simp add: remaining_at_unread)
next
  case (Some f)
  with assms show ?thesis
    by (cases f) (simp_all add: remaining_at_unread remaining_at_not_number)
qed

lemma getIpCooldown_frame:
  assumes "getIpCooldown e ip n w = (r, w')"
  shows "0 \<le> r \<and> (\<forall>q. q \<noteq> lockPathFor e ip n \<longrightarrow> files w' q = files w q) \<and>
         (ticks w' = ticks w \<or> ticks w' = Suc (ticks w)) \<and>
         (\<exists>evs. trace w' = trace w @ evs \<and> chain_free evs \<and>
                FsRead (lockPathFor e ip n) \<in> set evs)"
  using remaining_at_frame [OF assms [unfolded getIpCooldown_def]] by auto

lemma getIpPending_frame:
  assumes "getIpPending e ip n w = (r, w')"
  shows "0 \<le> r \<and> (\<forall>q. q \<noteq> pendingPathFor e ip n \<longrightarrow> files w' q = files w q) \<and>
         (ticks w' = ticks w \<or> ticks w' = Suc (ticks w)) \<and>
         (\<exists>evs. trace w' = trace w @ evs \<and> chain_free evs \<and>
                FsRead (pendingPathFor e ip n) \<in> set evs)"
  using remaining_at_frame [OF assms [unfolded getIpPending_def]] by auto

lemma after_captcha_frame:
  "files (after_captcha e req w) = files w \<and> ticks (after_captcha e req w) = ticks w \<and>
   (\<exists>evs. trace (after_captcha e req w) = trace w @ evs \<and> chain_free evs)"
  by (simp add: after_captcha_def verifyHCaptcha_world)

lemma after_cooldown_check_frame:
  "(\<forall>q. q \<noteq> lockPathFor e (getClientIp e req) (body_network req) \<longrightarrow>
        files (after_cooldown_check e req w) q = files w q) \<and>
   (ticks (after_cooldown_check e req w) = ticks w \<or>
    ticks (after_cooldown_check e req w) = Suc (ticks w)) \<and>
   (\<exists>evs. trace (after_cooldown_check e req w) = trace w @ evs \<and> chain_free evs \<and>
          FsRead (lockPathFor e (getClientIp e req) (body_network req)) \<in> set evs)"
proof -
  obtain r w2 where g: "getIpCooldown e (getClientIp e req) (body_network req)
                          (after_captcha e req w) = (r, w2)"
    by (cases "getIpCooldown e (getClientIp e req) (body_network req) (after_captcha e req w)")
  then have w2: "after_cooldown_check e req w = w2" by (simp add: after_cooldown_check_def)
  from getIpCooldown_frame [OF g] after_captcha_frame [of e req w] show ?thesis
    unfolding w2 by auto
qed

lemma after_pending_check_frame:
  "(\<forall>q. q \<noteq> lockPathFor e (getClientIp e req) (body_network req) \<longrightarrow>
        q \<noteq> pendingPathFor e (getClientIp e req) (body_network req) \<longrightarrow>
        files (after_pending_check e req w) q = files w q) \<and>
   files (after_pending_check e req w) (lockPathFor e (getClientIp e req) (body_network req)) =
     files (after_cooldown_check e req w) (lockPathFor e (getClientIp e req) (body_network req)) \<and>
   (\<exists>evs. trace (after_pending_check e req w) = trace w @ evs \<and> chain_free evs \<and>
          FsRead (lockPathFor e (getClientIp e req) (body_network req)) \<in> set evs \<and>
          FsRead (pendingPathFor e (getClientIp e req) (body_network req)) \<in> set evs) \<and>
   (ticks (after_pending_check e req w) = ticks (after_cooldown_check e req w) \<or>
    ticks (after_pending_check e req w) = Suc (ticks (after_cooldown_check e req w)))"
proof -
  obtain r w3 where g: "getIpPending e (getClientIp e req) (body_network req)
                          (after_cooldown_check e req w) = (r, w3)"
    by (cases "getIpPending e (getClientIp e req) (body_network req)
                 (after_cooldown_check e req w)")
  then have w3: "after_pending_check e req w = w3" by (simp add: after_pending_check_def)
  from getIpPending_frame [OF g] after_cooldown_check_frame [of e req w] show ?thesis
    unfolding w3 by auto
qed

subsection \<open>The handler, stage by stage\<close>

lemma events_append:
  assumes "trace (snd (claim e req w)) = trace w @ evs"
  shows "events e req w = evs"
  using assms by (simp add: events_def)

lemma claim_admitted:
  assumes "admitted e req w"
  shows "claim e req w =
           validate_and_dispatch e (getClientIp e req) (body_network req) (body_recipient req)
             (pending_written e req w)"
  using assms
  by (simp add: claim_def admitted_def pending_written_def after_pending_check_def
        after_cooldown_check_def after_captcha_def split_beta Let_def)

lemma claim_not_admitted:
  assumes "\<not> admitted e req w"
  shows "(if truthy_str (body_captchaToken req) \<and>
             fst (verifyHCaptcha e (body_captchaToken req) (getClientIp e req) w)
          then \<exists>k. fst (claim e req w) = failure_wait 429 ''Wait before next claim'' k
          else fst (claim e req w) = failure 400 ''Invalid captcha'') \<and>
         (\<exists>evs. trace (snd (claim e req w)) = trace w @ evs \<and> chain_free evs) \<and>
         (\<forall>q. q \<noteq> lockPathFor e (getClientIp e req) (body_network req) \<longrightarrow>
              q \<noteq> pendingPathFor e (getClientIp e req) (body_network req) \<longrightarrow>
              files (snd (claim e req w)) q = files w q)"
proof -
  let ?ip = "getClientIp e req" and ?n = "body_network req"
  let ?tok = "body_captchaToken req"
  show ?thesis
  proof (cases "truthy_str ?tok \<and> fst (verifyHCaptcha e ?tok ?ip w)")
    case False
    then show ?thesis
      using after_captcha_frame [of e req w]
      by (auto simp: claim_def split_beta Let_def after_captcha_def)
  next
    case True
    show ?thesis
    proof (cases "0 < fst (getIpCooldown e ?ip ?n (after_captcha e req w))")
      case c: True
      with True have "claim e req w =
          (failure_wait 429 ''Wait before next claim''
             (ceil_div (fst (getIpCooldown e ?ip ?n (after_captcha e req w))) 1000),
           after_cooldown_check e req w)"
        by (simp add: claim_def split_beta Let_def after_captcha_def after_cooldown_check_def)
      then show ?thesis using True after_cooldown_check_frame [of e req w] by auto
    next
      case c: False
      with True assms have p: "0 < fst (getIpPending e ?ip ?n (after_cooldown_check e req w))"
        by (simp add: admitted_def)
      with True c have "claim e req w =
          (failure_wait 429 ''Wait before next claim''
             (ceil_div (fst (getIpPending e ?ip ?n (after_cooldown_check e req w))) 1000),
           after_pending_check e req w)"
        by (simp add: claim_def split_beta Let_def after_captcha_def after_cooldown_check_def
              after_pending_check_def)
      then show ?thesis using True after_pending_check_frame [of e req w] by auto
    qed
  qed
qed









lemma validate_bind_fails:
  assumes "supported e n" and "rcp = Some r" and "isAddress e r" and "bind_res e = Some ex"
  shows "validate_and_dispatch e ip n rcp w = (internal_error ex, emit (Chain Bind) w)"
  using assms by (auto simp: validate_and_dispatch_def supported_def Let_def)

lemma validate_claimAmount_fails:
  assumes "supported e n" and "rcp = Some r" and "isAddress e r" and "bind_res e = None"
    and "claimAmount_res e = Inl ex"
  shows "validate_and_dispatch e ip n rcp w =
           (internal_error ex, emit (Chain ClaimAmount) (emit (Chain Bind) w))"
  using assms by (auto simp: validate_and_dispatch_def supported_def Let_def)









lemma dispatch_failed_wait_read_fails:
  assumes "code ex = Some ''CALL_EXCEPTION''" and "reason ex = Some ''Wait before next claim''"
    and "lastClaim_res e r = Inl ex2 \<or> (\<exists>l. lastClaim_res e r = Inr l) \<and> cooldown_res e = Inl ex2"
  shows "fst (dispatch_failed e ip n r ex w) = internal_error ex2 \<and>
         files (snd (dispatch_failed e ip n r ex w)) = files w"
  using assms by (auto simp: dispatch_failed_def Let_def)

lemma dispatch_failed_status: "status (fst (dispatch_failed e ip n r ex w)) \<noteq> 429"
  by (simp add: dispatch_failed_def Let_def failure_wait_def internal_error_def failure_def
        Date_now_def split: sum.splits)

lemma dispatch_status: "status (fst (dispatch e ip n r w)) \<noteq> 429"
  by (simp add: dispatch_def Let_def succeeded_def dispatch_failed_status
        split: sum.splits option.splits)

lemma validate_status: "status (fst (validate_and_dispatch e ip n rcp w)) \<noteq> 429"
  by (simp add: validate_and_dispatch_def Let_def failure_def internal_error_def
        dispatch_status split: sum.splits option.splits)

subsection \<open>Numbers\<close>







subsection \<open>Lock reads and expiry\<close>



subsection \<open>The verifier\<close>

text \<open>
  Claim C8, as amended. \<open>verifyHCaptcha\<close> is a total function into the booleans: it
  never throws. It returns false whenever the secret is not configured, the request to
  the endpoint fails, the body does not parse, or the parsed body has no truthy
  \<open>success\<close>. (A missing token is not among these cases: it is sent as the empty
  string, and the result is the endpoint's verdict.)
\<close>

theorem verifier_fails_closed:
  assumes "up = siteverify e (HCAPTCHA_SECRET e)
                  (if truthy_str token then template_str token else [])
                  (if ip \<noteq> [] then Some ip else None)"
    and "HCAPTCHA_SECRET e = [] \<or> up = NetworkError \<or> up = BadBody \<or>
         (\<exists>data. up = Body data \<and> \<not> truthy (js_member data ''success''))"
  shows "fst (verifyHCaptcha e token ip w) = False"
  using assms by (auto simp: verifyHCaptcha_iff)

theorem verifier_fails_closed_witness:
  "fst (verifyHCaptcha env0 (Some ''wrong'') ''203.0.113.7'' world0) = False"
  using verifier_fails_closed
          [of "Body (JObj [(''success'', JBool False)])" env0 "Some ''wrong''" "''203.0.113.7''"
              world0]
  by (simp add: env0_def)

text \<open>
  The claim as stated fails where the token is missing and the endpoint nevertheless
  reports success: the verifier returns true.
\<close>

theorem verifier_missing_token_counterexample:
  "fst (verifyHCaptcha
          (env0\<lparr>siteverify := (\<lambda>secret response remoteip.
             Body (JObj [(''success'', JBool True)]))\<rparr>)
          None ''203.0.113.7'' world0) = True"
  by (simp add: verifyHCaptcha_def env0_def Let_def)

subsection \<open>Requests without a captcha token\<close>



subsection \<open>Corrupt lock records\<close>

text \<open>
  Claim C10. When the record behind a lock for a client and network is there but cannot
  be read, is not JSON, or has no numeric \<open>expiresAt\<close>, \<open>getIpCooldown\<close> and
  \<open>getIpPending\<close> (total functions: they never throw) return 0 for it. Such a record
  does not block a request: when neither lock file of the request's client and network is
  usable, the handler does not answer 429.
\<close>

theorem corrupt_lock_never_blocks:
  assumes "(rd = getIpCooldown \<and> path = lockPathFor e ip n) \<or>
           (rd = getIpPending \<and> path = pendingPathFor e ip n)"
    and "files w path = Some f"
    and "corrupt f"
  shows "fst (rd e ip n w) = 0 \<and>
         (ip = getClientIp e req \<and> n = body_network req \<and>
          unusable (files w (lockPathFor e ip n)) \<and>
          unusable (files w (pendingPathFor e ip n)) \<longrightarrow>
            status (fst (claim e req w)) \<noteq> 429)"
proof -
  have "unusable (files (ensureLockDir e w) path)" using assms(2,3) by simp
  from remaining_at_unusable [OF this] assms(1)
  have r: "fst (rd e ip n w) = 0"
    by (auto simp: getIpCooldown_def getIpPending_def)
  have "status (fst (claim e req w)) \<noteq> 429"
    if u: "unusable (files w (lockPathFor e (getClientIp e req) (body_network req)))"
          "unusable (files w (pendingPathFor e (getClientIp e req) (body_network req)))"
  proof (cases "admitted e req w")
    case True
    then show ?thesis by (simp add: claim_admitted validate_status)
  next
    case False
    let ?ip = "getClientIp e req" and ?n = "body_network req"
    have "unusable (files (ensureLockDir e (after_captcha e req w)) (lockPathFor e ?ip ?n))"
      using u(1) after_captcha_frame [of e req w] by simp
    from remaining_at_unusable [OF this]
    have c: "fst (getIpCooldown e ?ip ?n (after_captcha e req w)) = 0"
      by (simp add: getIpCooldown_def)
    have "files (after_cooldown_check e req w) (pendingPathFor e ?ip ?n) =
            files w (pendingPathFor e ?ip ?n)"
      using after_cooldown_check_frame [of e req w] by simp
    with u(2) have "unusable (files (ensureLockDir e (after_cooldown_check e req w))
                               (pendingPathFor e ?ip ?n))" by simp
    from remaining_at_unusable [OF this]
    have p: "fst (getIpPending e ?ip ?n (after_cooldown_check e req w)) = 0"
      by (simp add: getIpPending_def)
    from False c p have "\<not> (truthy_str (body_captchaToken req) \<and>
        fst (verifyHCaptcha e (body_captchaToken req) ?ip w))"
      by (simp add: admitted_def)
    with claim_not_admitted [OF False] show ?thesis by (simp add: failure_def)
  qed
  with r show ?thesis by blast
qed

text \<open>The theorem at a cooldown file that is not JSON: the read gives 0 and the request
  of \<open>req0\<close> goes through.\<close>

theorem corrupt_lock_never_blocks_witness:
  "corrupt Garbled \<and>
   fst (getIpCooldown env0 ''203.0.113.7'' (Some ''sepolia'')
          (world0\<lparr>files := [sepolia_lock \<mapsto> Garbled]\<rparr>)) = 0 \<and>
   status (fst (claim env0 req0 (world0\<lparr>files := [sepolia_lock \<mapsto> Garbled]\<rparr>))) \<noteq> 429"
  using corrupt_lock_never_blocks
          [of getIpCooldown sepolia_lock env0 "''203.0.113.7''" "Some ''sepolia''"
              "world0\<lparr>files := [sepolia_lock \<mapsto> Garbled]\<rparr>" Garbled req0]
  by (simp add: eval_defs)

subsection \<open>A request blocked by the cooldown lock\<close>




subsection \<open>A second request from the same client\<close>

text \<open>
  Claim C3, as amended. When a record of the cooldown or of the pending lock of the
  request's client and network is stored with an \<open>expiresAt\<close> later than the first two
  clock readings of the request, a request that passes the captcha check is answered
  with status 429 and "Wait before next claim", and the chain is not called: in
  particular there is no \<open>adminClaimFor\<close>. The locks are keyed by client and network,
  so this is about a request to the same network.
\<close>

theorem active_lock_blocks_same_network:
  assumes "truthy_str (body_captchaToken req)"
    and "fst (verifyHCaptcha e (body_captchaToken req) (getClientIp e req) w)"
    and "path = lockPathFor e (getClientIp e req) (body_network req) \<or>
         path = pendingPathFor e (getClientIp e req) (body_network req)"
    and "files w path = Some (Doc j)"
    and "js_member j ''expiresAt'' = Some (JNum expiresAt)"
    and "clock e (ticks w) < expiresAt"
    and "clock e (Suc (ticks w)) < expiresAt"
  shows "status (fst (claim e req w)) = 429 \<and> success (fst (claim e req w)) = False \<and>
         error (fst (claim e req w)) = Some ''Wait before next claim'' \<and>
         Chain AdminClaimFor \<notin> set (events e req w) \<and> chain_free (events e req w)"
proof -
  let ?ip = "getClientIp e req" and ?n = "body_network req"
  let ?lp = "lockPathFor e ?ip ?n" and ?pp = "pendingPathFor e ?ip ?n"
  have ac: "files (after_captcha e req w) = files w" "ticks (after_captcha e req w) = ticks w"
    using after_captcha_frame [of e req w] by simp_all
  have na: "\<not> admitted e req w"
  proof (cases "path = ?lp")
    case True
    let ?w1 = "ensureLockDir e (after_captcha e req w)"
    have "files ?w1 ?lp = Some (Doc j)" "clock e (ticks ?w1) < expiresAt"
      using assms(4,6) True ac by simp_all
    from remaining_at_live [OF this(1) assms(5) this(2)] this(2)
    have "0 < fst (getIpCooldown e ?ip ?n (after_captcha e req w))"
      by (simp add: getIpCooldown_def)
    then show ?thesis by (simp add: admitted_def)
  next
    case False
    with assms(3) have p: "path = ?pp" by simp
    let ?w2 = "after_cooldown_check e req w"
    let ?w2' = "ensureLockDir e ?w2"
    from after_cooldown_check_frame [of e req w]
    have "files ?w2 ?pp = files w ?pp" "ticks ?w2 = ticks w \<or> ticks ?w2 = Suc (ticks w)"
      by simp_all
    with assms(4,6,7) p have "files ?w2' ?pp = Some (Doc j)" "clock e (ticks ?w2') < expiresAt"
      by auto
    from remaining_at_live [OF this(1) assms(5) this(2)] this(2)
    have "0 < fst (getIpPending e ?ip ?n ?w2)"
      by (simp add: getIpPending_def)
    then show ?thesis by (simp add: admitted_def)
  qed
  from claim_not_admitted [OF na] assms(1,2)
  obtain k evs where k: "fst (claim e req w) = failure_wait 429 ''Wait before next claim'' k"
    and evs: "trace (snd (claim e req w)) = trace w @ evs" "chain_free evs"
    by auto
  from evs have "events e req w = evs" by (simp add: events_append)
  with k evs(2) show ?thesis by (simp add: failure_wait_def chain_free_no_chain)
qed

theorem active_lock_blocks_same_network_witness:
  "files world_cooling (lockPathFor env0 (getClientIp env0 req0) (body_network req0)) \<noteq> None \<and>
   status (fst (claim env0 req0 world_cooling)) = 429 \<and>
   error (fst (claim env0 req0 world_cooling)) = Some ''Wait before next claim'' \<and>
   Chain AdminClaimFor \<notin> set (events env0 req0 world_cooling)"
  using active_lock_blocks_same_network
          [of req0 env0 world_cooling sepolia_lock
              "JObj [(''firstSeenAt'', JNum 1699913605000), (''expiresAt'', JNum 1700000005000),
                     (''lastAddress'', JStr alice), (''lastNetwork'', JStr ''sepolia''),
                     (''txHash'', JStr ''0xbeef'')]"
              1700000005000]
  by (simp add: eval_defs)

text \<open>
  The claim as stated fails for a different network: after a successful claim on
  \<open>sepolia\<close>, a request of the same client for \<open>amoy\<close> within the same minute is
  dispatched and succeeds.
\<close>

theorem second_network_counterexample:
  "success (fst (claim env0 req0 world0)) \<and>
   files (snd (claim env0 req0 world0)) sepolia_lock \<noteq> None \<and>
   clock env0 (ticks (snd (claim env0 req_amoy (snd (claim env0 req0 world0))))) - clock env0 0
     < 60 * 1000 \<and>
   getClientIp env0 req_amoy = getClientIp env0 req0 \<and>
   success (fst (claim env0 req_amoy (snd (claim env0 req0 world0)))) \<and>
   Chain AdminClaimFor \<in> set (events env0 req_amoy (snd (claim env0 req0 world0)))"
  by (simp add: eval_defs)

subsection \<open>An unsupported network\<close>




subsection \<open>A successful dispatch\<close>



subsection \<open>The contract's cooldown rejection\<close>




subsection \<open>The pending lock on the way out\<close>




end
